theory Spec2Isabelle
  imports Complex_Main
begin

section \<open>JavaScript numbers\<close>

text \<open>
  A JavaScript Number is a finite value, one of the two infinities, or NaN. The finite
  values are modelled as reals with exact arithmetic: rounding, overflow of finite
  operands and the sign of zero are not modelled. The special values follow the
  language's rules for \<open>/\<close>, \<open>*\<close>, \<open>+\<close>, \<open>Math.abs\<close>, \<open>Math.cos\<close> and \<open>Math.sin\<close>.
\<close>

datatype number = Finite real | PosInfinity | NegInfinity | NaN

text \<open>Multiplication: NaN is contagious, infinity times zero is NaN, signs multiply.\<close>

fun num_mul :: "number \<Rightarrow> number \<Rightarrow> number" where
  "num_mul NaN _ = NaN"
| "num_mul _ NaN = NaN"
| "num_mul (Finite a) (Finite b) = Finite (a * b)"
| "num_mul (Finite a) PosInfinity =
     (if a = 0 then NaN else if 0 < a then PosInfinity else NegInfinity)"
| "num_mul (Finite a) NegInfinity =
     (if a = 0 then NaN else if 0 < a then NegInfinity else PosInfinity)"
| "num_mul PosInfinity (Finite b) =
     (if b = 0 then NaN else if 0 < b then PosInfinity else NegInfinity)"
| "num_mul NegInfinity (Finite b) =
     (if b = 0 then NaN else if 0 < b then NegInfinity else PosInfinity)"
| "num_mul PosInfinity PosInfinity = PosInfinity"
| "num_mul PosInfinity NegInfinity = NegInfinity"
| "num_mul NegInfinity PosInfinity = NegInfinity"
| "num_mul NegInfinity NegInfinity = PosInfinity"

text \<open>Addition: NaN is contagious, the sum of opposite infinities is NaN.\<close>

fun num_add :: "number \<Rightarrow> number \<Rightarrow> number" where
  "num_add NaN _ = NaN"
| "num_add _ NaN = NaN"
| "num_add (Finite a) (Finite b) = Finite (a + b)"
| "num_add (Finite a) PosInfinity = PosInfinity"
| "num_add (Finite a) NegInfinity = NegInfinity"
| "num_add PosInfinity (Finite b) = PosInfinity"
| "num_add NegInfinity (Finite b) = NegInfinity"
| "num_add PosInfinity PosInfinity = PosInfinity"
| "num_add NegInfinity NegInfinity = NegInfinity"
| "num_add PosInfinity NegInfinity = NaN"
| "num_add NegInfinity PosInfinity = NaN"

text \<open>
  Division. A zero divisor is taken as \<open>+0\<close>; the only divisor in the code is the
  literal \<open>2\<close>.
\<close>

fun num_div :: "number \<Rightarrow> number \<Rightarrow> number" where
  "num_div NaN _ = NaN"
| "num_div _ NaN = NaN"
| "num_div (Finite a) (Finite b) =
     (if b = 0 then (if a = 0 then NaN else if 0 < a then PosInfinity else NegInfinity)
      else Finite (a / b))"
| "num_div (Finite a) PosInfinity = Finite 0"
| "num_div (Finite a) NegInfinity = Finite 0"
| "num_div PosInfinity (Finite b) = (if 0 \<le> b then PosInfinity else NegInfinity)"
| "num_div NegInfinity (Finite b) = (if 0 \<le> b then NegInfinity else PosInfinity)"
| "num_div PosInfinity PosInfinity = NaN"
| "num_div PosInfinity NegInfinity = NaN"
| "num_div NegInfinity PosInfinity = NaN"
| "num_div NegInfinity NegInfinity = NaN"

text \<open>Unary minus, as in \<open>-\<theta>\<close>.\<close>

fun num_neg :: "number \<Rightarrow> number" where
  "num_neg NaN = NaN"
| "num_neg PosInfinity = NegInfinity"
| "num_neg NegInfinity = PosInfinity"
| "num_neg (Finite a) = Finite (- a)"

text \<open>\<open>Math.abs\<close>, \<open>Math.cos\<close> and \<open>Math.sin\<close>: the cosine and sine of an infinity are NaN.\<close>

fun Math_abs :: "number \<Rightarrow> number" where
  "Math_abs NaN = NaN"
| "Math_abs PosInfinity = PosInfinity"
| "Math_abs NegInfinity = PosInfinity"
| "Math_abs (Finite a) = Finite \<bar>a\<bar>"

fun Math_cos :: "number \<Rightarrow> number" where
  "Math_cos (Finite a) = Finite (cos a)"
| "Math_cos _ = NaN"

fun Math_sin :: "number \<Rightarrow> number" where
  "Math_sin (Finite a) = Finite (sin a)"
| "Math_sin _ = NaN"

text \<open>The tests \<open>Number.isNaN(x)\<close>, \<open>Number.isFinite(x)\<close>, \<open>x >= 0\<close> and \<open>x < 0\<close>.\<close>

fun isNaN :: "number \<Rightarrow> bool" where
  "isNaN NaN = True"
| "isNaN _ = False"

fun isFinite :: "number \<Rightarrow> bool" where
  "isFinite (Finite a) = True"
| "isFinite _ = False"

fun non_negative :: "number \<Rightarrow> bool" where
  "non_negative (Finite a) = (0 \<le> a)"
| "non_negative PosInfinity = True"
| "non_negative _ = False"

fun negative :: "number \<Rightarrow> bool" where
  "negative (Finite a) = (a < 0)"
| "negative NegInfinity = True"
| "negative _ = False"

section \<open>Rack objects and the extent projector\<close>

text \<open>
  A rack is an object with a \<open>userData\<close> object holding a \<open>config\<close> object, and a
  \<open>rotation\<close> object. Each of the three may be absent (\<open>undefined\<close>): reading a property
  of an absent object throws a TypeError. Every record is extensible, so a rack, its
  user data, its configuration and its rotation may carry any further fields. The
  fields \<open>width\<close>, \<open>depth\<close> and \<open>y\<close> hold numbers; a missing one reads as \<open>undefined\<close>,
  which \<open>/\<close>, \<open>Math.cos\<close> and \<open>Math.sin\<close> turn into NaN, so it is represented by NaN.
\<close>

datatype error = TypeError

record config =
  width :: number
  depth :: number

record 'c userData =
  config :: "'c config_scheme option"

record euler =
  y :: number

record ('c, 'u, 'e) rack =
  userData :: "('c, 'u) userData_scheme option"
  rotation :: "'e euler_scheme option"

record half_extents =
  halfX :: number
  halfZ :: number

definition getWorldHalfExtents ::
  "('c, 'u, 'e, 'r) rack_scheme \<Rightarrow> error + half_extents" where
  "getWorldHalfExtents rack =
     (case userData rack of
        None \<Rightarrow> Inl TypeError
      | Some ud \<Rightarrow>
     (case config ud of
        None \<Rightarrow> Inl TypeError
      | Some cfg \<Rightarrow>
     (case rotation rack of
        None \<Rightarrow> Inl TypeError
      | Some rot \<Rightarrow>
          let w = width cfg;
              d = depth cfg;
              \<theta> = y rot;
              hx = num_div w (Finite 2);
              hz = num_div d (Finite 2);
              hX = num_add (Math_abs (num_mul (Math_cos \<theta>) hx))
                           (Math_abs (num_mul (Math_sin \<theta>) hz));
              hZ = num_add (Math_abs (num_mul (Math_sin \<theta>) hx))
                           (Math_abs (num_mul (Math_cos \<theta>) hz))
          in Inr \<lparr>halfX = hX, halfZ = hZ\<rparr>)))"

text \<open>The object literal \<open>{userData: {config: {width, depth}}, rotation: {y}}\<close>.\<close>

definition mkRack :: "number \<Rightarrow> number \<Rightarrow> number \<Rightarrow> (unit, unit, unit) rack" where
  "mkRack w d \<theta> =
     \<lparr>userData = Some \<lparr>config = Some \<lparr>width = w, depth = d\<rparr>\<rparr>,
      rotation = Some \<lparr>y = \<theta>\<rparr>\<rparr>"

section \<open>Input sanitisation\<close>

text \<open>
  The values \<open>sanitizeInput\<close> can be called with, by their \<open>typeof\<close>. Strings are
  sequences of characters; the five characters of the pattern are ASCII.
\<close>

datatype js_value =
    JSUndefined | JSNull | JSBoolean bool | JSNumber number | JSBigInt int
  | JSString string | JSSymbol | JSObject

text \<open>
  The table \<open>entities\<close> of the replacer, in the order of the source. \<open>CHR 0x22\<close> is the
  double quote and \<open>CHR 0x27\<close> the single quote.
\<close>

definition entities :: "(char \<times> string) list" where
  "entities =
     [(CHR ''<'', ''&lt;''),
      (CHR ''>'', ''&gt;''),
      (CHR 0x22, ''&quot;''),
      (CHR 0x27, ''&#39;''),
      (CHR ''&'', ''&amp;'')]"

text \<open>The character class \<open>[<>'"&]\<close> of the pattern.\<close>

definition matches_class :: "char \<Rightarrow> bool" where
  "matches_class c = (c \<in> set [CHR ''<'', CHR ''>'', CHR 0x27, CHR 0x22, CHR ''&''])"

text \<open>The replacer \<open>entities[char] || char\<close>: a missing or empty entry gives the character.\<close>

definition escape_char :: "char \<Rightarrow> string" where
  "escape_char c =
     (case map_of entities c of
        Some e \<Rightarrow> (if e = [] then [c] else e)
      | None \<Rightarrow> [c])"

text \<open>
  \<open>str.replace(pattern, replacer)\<close> for a global pattern that matches single characters:
  every match is replaced by the replacer's result, which is not scanned again.
\<close>

fun replace_global :: "(char \<Rightarrow> bool) \<Rightarrow> (char \<Rightarrow> string) \<Rightarrow> string \<Rightarrow> string" where
  "replace_global p f [] = []"
| "replace_global p f (c # cs) = (if p c then f c else [c]) @ replace_global p f cs"

fun sanitizeInput :: "js_value \<Rightarrow> string" where
  "sanitizeInput (JSString str) = replace_global matches_class escape_char str"
| "sanitizeInput _ = []"

text \<open>
  The escaping as the specification words it: each of the five characters by its HTML
  entity, every other character by itself.
\<close>

definition html_entity :: "char \<Rightarrow> string" where
  "html_entity c =
     (if c = CHR ''<'' then ''&lt;''
      else if c = CHR ''>'' then ''&gt;''
      else if c = CHR 0x22 then ''&quot;''
      else if c = CHR 0x27 then ''&#39;''
      else if c = CHR ''&'' then ''&amp;''
      else [c])"

section \<open>Facts about the number operations\<close>

lemma getWorldHalfExtents_present:
  assumes "userData rack = Some ud" and "config ud = Some cfg" and "rotation rack = Some rot"
  shows "getWorldHalfExtents rack =
           Inr \<lparr>halfX = num_add
                          (Math_abs (num_mul (Math_cos (y rot)) (num_div (width cfg) (Finite 2))))
                          (Math_abs (num_mul (Math_sin (y rot)) (num_div (depth cfg) (Finite 2)))),
                halfZ = num_add
                          (Math_abs (num_mul (Math_sin (y rot)) (num_div (width cfg) (Finite 2))))
                          (Math_abs (num_mul (Math_cos (y rot)) (num_div (depth cfg) (Finite 2))))\<rparr>"
  using assms by (simp add: getWorldHalfExtents_def Let_def)

lemma abs_mul_neg_left: "Math_abs (num_mul (num_neg a) b) = Math_abs (num_mul a b)"
  by (cases a; cases b) auto

lemma abs_mul_abs_half:
  "Math_abs (num_mul a (num_div (Math_abs b) (Finite 2))) =
   Math_abs (num_mul a (num_div b (Finite 2)))"
  by (cases a; cases b) (auto simp: abs_mult)

lemma Math_cos_neg: "Math_cos (num_neg t) = Math_cos t"
  by (cases t) auto

lemma Math_sin_neg: "Math_sin (num_neg t) = num_neg (Math_sin t)"
  by (cases t) auto

lemma sum_abs_not_negative: "\<not> negative (num_add (Math_abs a) (Math_abs b))"
  by (cases a; cases b) auto

lemma sum_abs_nonneg_or_NaN:
  "non_negative (num_add (Math_abs a) (Math_abs b)) \<or> isNaN (num_add (Math_abs a) (Math_abs b))"
  by (cases a; cases b) auto

lemma sum_abs_finite_nonneg:
  "isFinite a \<Longrightarrow> isFinite b \<Longrightarrow> non_negative (num_add (Math_abs a) (Math_abs b))"
  by (cases a; cases b) auto

lemma finite_term:
  "isFinite w \<Longrightarrow> isFinite t \<Longrightarrow>
   isFinite (num_mul (Math_cos t) (num_div w (Finite 2))) \<and>
   isFinite (num_mul (Math_sin t) (num_div w (Finite 2)))"
  by (cases w; cases t) auto

lemma NaN_half: "isNaN a \<Longrightarrow> isNaN (num_div a (Finite 2))"
  by (cases a) auto

lemma NaN_trig: "isNaN t \<Longrightarrow> isNaN (Math_cos t) \<and> isNaN (Math_sin t)"
  by (cases t) auto

lemma NaN_mul: "isNaN a \<or> isNaN b \<Longrightarrow> isNaN (num_mul a b)"
  by (cases a; cases b) auto

lemma sum_abs_NaN: "isNaN a \<or> isNaN b \<Longrightarrow> isNaN (num_add (Math_abs a) (Math_abs b))"
  by (cases a; cases b) auto

lemma nonfinite_half: "\<not> isFinite a \<Longrightarrow> \<not> isFinite (num_div a (Finite 2))"
  by (cases a) auto

lemma nonfinite_trig: "\<not> isFinite t \<Longrightarrow> \<not> isFinite (Math_cos t) \<and> \<not> isFinite (Math_sin t)"
  by (cases t) auto

lemma nonfinite_mul: "\<not> isFinite a \<or> \<not> isFinite b \<Longrightarrow> \<not> isFinite (num_mul a b)"
  by (cases a; cases b) auto

lemma sum_abs_nonfinite:
  "\<not> isFinite a \<or> \<not> isFinite b \<Longrightarrow> \<not> isFinite (num_add (Math_abs a) (Math_abs b))"
  by (cases a; cases b) auto

section \<open>Facts about the replacement\<close>

lemma replacer_is_html_entity:
  "(if matches_class c then escape_char c else [c]) = html_entity c"
  by (simp add: matches_class_def escape_char_def entities_def html_entity_def)

lemma replace_global_concat:
  "replace_global matches_class escape_char s = concat (map html_entity s)"
  by (induction s) (simp_all add: replacer_is_html_entity)

lemma html_entity_clean:
  "CHR ''<'' \<notin> set (html_entity c)" "CHR ''>'' \<notin> set (html_entity c)"
  "CHR 0x22 \<notin> set (html_entity c)" "CHR 0x27 \<notin> set (html_entity c)"
  by (auto simp add: html_entity_def)

section \<open>The projection formula\<close>

text \<open>
  C1. For a rack with non-negative finite width \<open>w\<close>, non-negative finite depth \<open>d\<close> and
  finite rotation angle \<open>\<theta>\<close>, the projector returns
  \<open>halfX = |cos \<theta>| * (w/2) + |sin \<theta>| * (d/2)\<close> and
  \<open>halfZ = |sin \<theta>| * (w/2) + |cos \<theta>| * (d/2)\<close>.
\<close>

theorem extents_formula:
  assumes "userData rack = Some ud" and "config ud = Some cfg" and "rotation rack = Some rot"
    and "width cfg = Finite w" and "depth cfg = Finite d" and "y rot = Finite \<theta>"
    and "0 \<le> w" and "0 \<le> d"
  shows "getWorldHalfExtents rack =
           Inr \<lparr>halfX = Finite (\<bar>cos \<theta>\<bar> * (w / 2) + \<bar>sin \<theta>\<bar> * (d / 2)),
                halfZ = Finite (\<bar>sin \<theta>\<bar> * (w / 2) + \<bar>cos \<theta>\<bar> * (d / 2))\<rparr>"
  using assms by (simp add: getWorldHalfExtents_def abs_mult)

theorem extents_formula_witness:
  "getWorldHalfExtents (mkRack (Finite 4) (Finite 2) (Finite pi)) =
     Inr \<lparr>halfX = Finite 2, halfZ = Finite 1\<rparr>"
  using extents_formula [of "mkRack (Finite 4) (Finite 2) (Finite pi)"
      "\<lparr>config = Some \<lparr>width = Finite 4, depth = Finite 2\<rparr>\<rparr>"
      "\<lparr>width = Finite 4, depth = Finite 2\<rparr>" "\<lparr>y = Finite pi\<rparr>" 4 2 pi]
  by (simp add: mkRack_def)

section \<open>The unrotated rack\<close>

text \<open>
  C4. For a rack with non-negative width \<open>w\<close> and depth \<open>d\<close> and rotation angle \<open>0\<close>,
  the projector returns exactly \<open>halfX = w/2\<close> and \<open>halfZ = d/2\<close>.
\<close>

theorem extents_at_zero:
  assumes "userData rack = Some ud" and "config ud = Some cfg" and "rotation rack = Some rot"
    and "width cfg = Finite w" and "depth cfg = Finite d" and "y rot = Finite 0"
    and "0 \<le> w" and "0 \<le> d"
  shows "getWorldHalfExtents rack = Inr \<lparr>halfX = Finite (w / 2), halfZ = Finite (d / 2)\<rparr>"
  using assms by (simp add: getWorldHalfExtents_def)

theorem extents_at_zero_witness:
  "getWorldHalfExtents (mkRack (Finite 3) (Finite 5) (Finite 0)) =
     Inr \<lparr>halfX = Finite (3 / 2), halfZ = Finite (5 / 2)\<rparr>"
  using extents_at_zero [of "mkRack (Finite 3) (Finite 5) (Finite 0)"
      "\<lparr>config = Some \<lparr>width = Finite 3, depth = Finite 5\<rparr>\<rparr>"
      "\<lparr>width = Finite 3, depth = Finite 5\<rparr>" "\<lparr>y = Finite 0\<rparr>" 3 5]
  by (simp add: mkRack_def)

section \<open>Evenness in the rotation angle\<close>

text \<open>
  C7. For every width, depth and angle \<open>\<theta>\<close>, the projector returns the same result for
  the rack turned to \<open>-\<theta>\<close> as for the rack at \<open>\<theta>\<close>.
\<close>

theorem extents_even:
  assumes "userData rack = Some ud" and "config ud = Some cfg" and "rotation rack = Some rot"
  shows "\<exists>hs. getWorldHalfExtents rack = Inr hs \<and>
           getWorldHalfExtents (rack\<lparr>rotation := Some (rot\<lparr>y := num_neg (y rot)\<rparr>)\<rparr>) = Inr hs"
  using assms
  by (simp add: getWorldHalfExtents_def Let_def Math_cos_neg Math_sin_neg abs_mul_neg_left)

theorem extents_even_witness:
  "\<exists>hs. getWorldHalfExtents (mkRack (Finite 4) (Finite 2) (Finite 1)) = Inr hs \<and>
         getWorldHalfExtents (mkRack (Finite 4) (Finite 2) (Finite (- 1))) = Inr hs"
  using extents_even [of "mkRack (Finite 4) (Finite 2) (Finite 1)"
      "\<lparr>config = Some \<lparr>width = Finite 4, depth = Finite 2\<rparr>\<rparr>"
      "\<lparr>width = Finite 4, depth = Finite 2\<rparr>" "\<lparr>y = Finite 1\<rparr>"]
  by (simp add: mkRack_def)

section \<open>Sign of the result\<close>

text \<open>
  C3 (amended). For every width, depth and rotation angle, the returned \<open>halfX\<close> and
  \<open>halfZ\<close> are each non-negative or NaN, and they are non-negative whenever the three
  inputs are finite: NaN occurs only when an input is NaN or infinite.
\<close>

theorem extents_nonneg_or_NaN:
  assumes "userData rack = Some ud" and "config ud = Some cfg" and "rotation rack = Some rot"
  shows "\<exists>hs. getWorldHalfExtents rack = Inr hs \<and>
           (non_negative (halfX hs) \<or> isNaN (halfX hs)) \<and>
           (non_negative (halfZ hs) \<or> isNaN (halfZ hs)) \<and>
           (isFinite (width cfg) \<and> isFinite (depth cfg) \<and> isFinite (y rot) \<longrightarrow>
              non_negative (halfX hs) \<and> non_negative (halfZ hs))"
proof -
  note r = getWorldHalfExtents_present [OF assms]
  have "isFinite (width cfg) \<and> isFinite (depth cfg) \<and> isFinite (y rot) \<longrightarrow>
          non_negative (halfX (projr (getWorldHalfExtents rack))) \<and>
          non_negative (halfZ (projr (getWorldHalfExtents rack)))"
    by (simp add: r finite_term sum_abs_finite_nonneg)
  then show ?thesis
    by (simp add: r sum_abs_nonneg_or_NaN)
qed

theorem extents_nonneg_or_NaN_witness:
  "isFinite (Finite (- 4)) \<and> isFinite (Finite 2) \<and> isFinite (Finite pi) \<and>
   (\<exists>hs. getWorldHalfExtents (mkRack (Finite (- 4)) (Finite 2) (Finite pi)) = Inr hs \<and>
          non_negative (halfX hs) \<and> non_negative (halfZ hs))"
  using extents_nonneg_or_NaN [of "mkRack (Finite (- 4)) (Finite 2) (Finite pi)"
      "\<lparr>config = Some \<lparr>width = Finite (- 4), depth = Finite 2\<rparr>\<rparr>"
      "\<lparr>width = Finite (- 4), depth = Finite 2\<rparr>" "\<lparr>y = Finite pi\<rparr>"]
  by (simp add: mkRack_def) blast

text \<open>
  With an infinite rotation angle and no NaN among the inputs, both components are NaN,
  which is not non-negative.
\<close>

theorem extents_nonneg_counterexample:
  "getWorldHalfExtents (mkRack (Finite 4) (Finite 2) PosInfinity) =
     Inr \<lparr>halfX = NaN, halfZ = NaN\<rparr> \<and>
   \<not> isNaN (Finite 4) \<and> \<not> isNaN (Finite 2) \<and> \<not> isNaN PosInfinity \<and> \<not> non_negative NaN"
  by (simp add: getWorldHalfExtents_def mkRack_def)

section \<open>Malformed inputs\<close>

text \<open>
  C2 (amended). The projector never raises an error on a rack that has the three fields.
  A NaN width, depth or angle gives NaN in both \<open>halfX\<close> and \<open>halfZ\<close>. A negative width
  or depth is not rejected either, but it gives the same result as its absolute value:
  no component of a result is negative.
\<close>

theorem extents_malformed_inputs:
  assumes "userData rack = Some ud" and "config ud = Some cfg" and "rotation rack = Some rot"
  shows "\<exists>hs. getWorldHalfExtents rack = Inr hs \<and>
           (isNaN (width cfg) \<or> isNaN (depth cfg) \<or> isNaN (y rot) \<longrightarrow>
              isNaN (halfX hs) \<and> isNaN (halfZ hs)) \<and>
           \<not> negative (halfX hs) \<and> \<not> negative (halfZ hs) \<and>
           getWorldHalfExtents
             (rack\<lparr>userData := Some (ud\<lparr>config := Some
                (cfg\<lparr>width := Math_abs (width cfg), depth := Math_abs (depth cfg)\<rparr>)\<rparr>)\<rparr>) = Inr hs"
proof -
  note r = getWorldHalfExtents_present [OF assms]
  have nan: "isNaN (width cfg) \<or> isNaN (depth cfg) \<or> isNaN (y rot) \<Longrightarrow>
          isNaN (halfX (projr (getWorldHalfExtents rack))) \<and>
          isNaN (halfZ (projr (getWorldHalfExtents rack)))"
    using NaN_half [of "width cfg"] NaN_half [of "depth cfg"] NaN_trig [of "y rot"]
    by (auto simp add: r intro!: sum_abs_NaN NaN_mul)
  have same: "getWorldHalfExtents
             (rack\<lparr>userData := Some (ud\<lparr>config := Some
                (cfg\<lparr>width := Math_abs (width cfg), depth := Math_abs (depth cfg)\<rparr>)\<rparr>)\<rparr>) =
           getWorldHalfExtents rack"
    using assms by (simp add: getWorldHalfExtents_def Let_def abs_mul_abs_half)
  show ?thesis
    using nan by (simp add: same) (simp add: r sum_abs_not_negative)
qed

theorem extents_malformed_inputs_witness:
  "isNaN NaN \<and> negative (Finite (- 2)) \<and>
   (\<exists>hs. getWorldHalfExtents (mkRack NaN (Finite (- 2)) (Finite 0)) = Inr hs \<and>
          isNaN (halfX hs) \<and> isNaN (halfZ hs))"
  using extents_malformed_inputs [of "mkRack NaN (Finite (- 2)) (Finite 0)"
      "\<lparr>config = Some \<lparr>width = NaN, depth = Finite (- 2)\<rparr>\<rparr>"
      "\<lparr>width = NaN, depth = Finite (- 2)\<rparr>" "\<lparr>y = Finite 0\<rparr>"]
  by (simp add: mkRack_def) blast

text \<open>
  With a negative width and a negative depth, the result has no NaN and no negative
  component.
\<close>

theorem extents_negative_counterexample:
  "negative (Finite (- 4)) \<and> negative (Finite (- 2)) \<and>
   getWorldHalfExtents (mkRack (Finite (- 4)) (Finite (- 2)) (Finite 0)) =
     Inr \<lparr>halfX = Finite 2, halfZ = Finite 1\<rparr> \<and>
   \<not> negative (Finite 2) \<and> \<not> isNaN (Finite 2) \<and>
   \<not> negative (Finite 1) \<and> \<not> isNaN (Finite 1)"
  by (simp add: getWorldHalfExtents_def mkRack_def)

text \<open>
  C8. The projector is total and validates nothing: on a rack that has the three fields
  it returns a result for every width, depth and angle, and when any of the three is
  NaN or infinite, \<open>halfX\<close> and \<open>halfZ\<close> are each NaN or infinite.
\<close>

theorem extents_total:
  assumes "userData rack = Some ud" and "config ud = Some cfg" and "rotation rack = Some rot"
  shows "\<exists>hs. getWorldHalfExtents rack = Inr hs \<and>
           (\<not> isFinite (width cfg) \<or> \<not> isFinite (depth cfg) \<or> \<not> isFinite (y rot) \<longrightarrow>
              \<not> isFinite (halfX hs) \<and> \<not> isFinite (halfZ hs))"
proof -
  note r = getWorldHalfExtents_present [OF assms]
  have "\<not> isFinite (width cfg) \<or> \<not> isFinite (depth cfg) \<or> \<not> isFinite (y rot) \<Longrightarrow>
          \<not> isFinite (halfX (projr (getWorldHalfExtents rack))) \<and>
          \<not> isFinite (halfZ (projr (getWorldHalfExtents rack)))"
    using nonfinite_half [of "width cfg"] nonfinite_half [of "depth cfg"]
      nonfinite_trig [of "y rot"]
    by (auto simp add: r intro!: sum_abs_nonfinite nonfinite_mul)
  then show ?thesis
    by (simp add: r)
qed

theorem extents_total_witness:
  "\<not> isFinite PosInfinity \<and>
   (\<exists>hs. getWorldHalfExtents (mkRack PosInfinity (Finite 2) (Finite 0)) = Inr hs \<and>
          \<not> isFinite (halfX hs) \<and> \<not> isFinite (halfZ hs))"
  using extents_total [of "mkRack PosInfinity (Finite 2) (Finite 0)"
      "\<lparr>config = Some \<lparr>width = PosInfinity, depth = Finite 2\<rparr>\<rparr>"
      "\<lparr>width = PosInfinity, depth = Finite 2\<rparr>" "\<lparr>y = Finite 0\<rparr>"]
  by (simp add: mkRack_def)

section \<open>Dependence on the three inputs only\<close>

text \<open>
  C9. The projector depends only on the width, the depth and the rotation angle: two
  racks on which these three are equal get equal results, whatever other fields the
  racks, their user data, configurations and rotations carry. The result is a function
  of the rack alone; nothing is modified.
\<close>

theorem extents_depend_on_inputs_only:
  fixes rack1 :: "('c1, 'u1, 'e1, 'r1) rack_scheme"
    and rack2 :: "('c2, 'u2, 'e2, 'r2) rack_scheme"
  assumes "userData rack1 = Some ud1" and "config ud1 = Some cfg1"
    and "rotation rack1 = Some rot1"
    and "userData rack2 = Some ud2" and "config ud2 = Some cfg2"
    and "rotation rack2 = Some rot2"
    and "width cfg1 = width cfg2" and "depth cfg1 = depth cfg2" and "y rot1 = y rot2"
  shows "\<exists>hs. getWorldHalfExtents rack1 = Inr hs \<and> getWorldHalfExtents rack2 = Inr hs"
  using assms by (simp add: getWorldHalfExtents_def Let_def)

theorem extents_depend_on_inputs_only_witness:
  "\<exists>hs. getWorldHalfExtents (mkRack (Finite 4) (Finite 2) (Finite 1)) = Inr hs \<and>
         getWorldHalfExtents
           \<lparr>userData = Some \<lparr>config = Some \<lparr>width = Finite 4, depth = Finite 2,
                                            \<dots> = ''R-01''\<rparr>, \<dots> = True\<rparr>,
            rotation = Some \<lparr>y = Finite 1, \<dots> = (Finite 0, Finite 7)\<rparr>,
            \<dots> = ''pillarStructure''\<rparr> = Inr hs"
  using extents_depend_on_inputs_only [of "mkRack (Finite 4) (Finite 2) (Finite 1)"
      "\<lparr>config = Some \<lparr>width = Finite 4, depth = Finite 2\<rparr>\<rparr>"
      "\<lparr>width = Finite 4, depth = Finite 2\<rparr>" "\<lparr>y = Finite 1\<rparr>"
      "\<lparr>userData = Some \<lparr>config = Some \<lparr>width = Finite 4, depth = Finite 2,
                                        \<dots> = ''R-01''\<rparr>, \<dots> = True\<rparr>,
        rotation = Some \<lparr>y = Finite 1, \<dots> = (Finite 0, Finite 7)\<rparr>,
        \<dots> = ''pillarStructure''\<rparr>"
      "\<lparr>config = Some \<lparr>width = Finite 4, depth = Finite 2, \<dots> = ''R-01''\<rparr>, \<dots> = True\<rparr>"
      "\<lparr>width = Finite 4, depth = Finite 2, \<dots> = ''R-01''\<rparr>"
      "\<lparr>y = Finite 1, \<dots> = (Finite 0, Finite 7)\<rparr>"]
  by (simp add: mkRack_def)

section \<open>Escaping of the input string\<close>

text \<open>
  C10. For every input value \<open>sanitizeInput\<close> returns a string: the empty string when
  the input is not a string, and otherwise the input with every occurrence of \<open><\<close>, \<open>>\<close>,
  the double quote, the single quote and \<open>&\<close> replaced by its HTML entity; the result
  contains none of \<open><\<close>, \<open>>\<close>, the double quote and the single quote.
\<close>

theorem sanitizeInput_escapes:
  "sanitizeInput v = (case v of JSString s \<Rightarrow> concat (map html_entity s) | _ \<Rightarrow> [])
   \<and> CHR ''<'' \<notin> set (sanitizeInput v) \<and> CHR ''>'' \<notin> set (sanitizeInput v)
   \<and> CHR 0x22 \<notin> set (sanitizeInput v) \<and> CHR 0x27 \<notin> set (sanitizeInput v)"
proof (cases v)
  case (JSString str)
  have "sanitizeInput v = concat (map html_entity str)"
    using JSString by (simp add: replace_global_concat)
  moreover have "c \<notin> set (concat (map html_entity str))"
    if "c \<in> {CHR ''<'', CHR ''>'', CHR 0x22, CHR 0x27}" for c
    using that html_entity_clean by auto
  ultimately show ?thesis
    using JSString by simp
qed simp_all

text \<open>The markup \<open><b>it's</b>\<close> is escaped character by character.\<close>

lemma sanitizeInput_example:
  "sanitizeInput (JSString [CHR ''<'', CHR ''b'', CHR ''>'', CHR ''i'', CHR ''t'', CHR 0x27,
                            CHR ''s'', CHR ''<'', CHR ''/'', CHR ''b'', CHR ''>'']) =
     ''&lt;b&gt;it&#39;s&lt;/b&gt;''"
  by (simp add: matches_class_def escape_char_def entities_def)

end
